theory Spec2Isabelle
  imports Complex_Main
begin

section \<open>Common data\<close>

text \<open>
  Exceptions of the Python sources are values. Only the exceptions that the modelled
  functions can raise themselves are listed; collaborators that live outside the
  sources at hand (the JAX random module, diffrax, the solver mixins) are parameters
  of the model and are taken to return.
\<close>

datatype py_error =
    NotImplementedError string
  | StopIteration
  | UnboundLocalError string
  | ZeroDivisionError
  | AttributeError string
  | ValueError
  | IndexError

section \<open>Time sampler: \<open>ott/neural/flows/samplers.py\<close>\<close>

text \<open>
  Floating-point numbers are idealised as real numbers; the one non-finite value the
  sampler can manufacture itself, the NaN of a remainder by zero, is \<open>None\<close>.
  The remainder \<open>%\<close> of \<open>jax.numpy\<close> takes the sign of the divisor:
  \<open>x % m = x - m * floor (x / m)\<close>.
\<close>

definition float_mod :: "real \<Rightarrow> real \<Rightarrow> real option" where
  "float_mod x m = (if m = 0 then None else Some (x - m * of_int \<lfloor>x / m\<rfloor>))"

text \<open>
  \<open>jax.random.uniform(rng, shape, minval, maxval)\<close> is a parameter:
  \<open>uniform rng n minval maxval i\<close> is entry \<open>i\<close> of the array of shape \<open>(n, 1)\<close>
  drawn from the key \<open>rng\<close>.
\<close>

type_synonym 'k uniform_fn = "'k \<Rightarrow> nat \<Rightarrow> real \<Rightarrow> real \<Rightarrow> nat \<Rightarrow> real"

text \<open>
  \<^verbatim>\<open>
  if offset is None:
    return jax.random.uniform(rng, (num_samples, 1), minval=low, maxval=high)
  return (
      jax.random.uniform(rng, (1, 1), minval=low, maxval=high) +
      jnp.arange(num_samples)[:, None] / num_samples
  ) % ((high - low) - offset)
  \<close>
  The result has shape \<open>(num_samples, 1)\<close> and is the list of its rows.
\<close>

definition sample_uniformly ::
  "'k uniform_fn \<Rightarrow> 'k \<Rightarrow> nat \<Rightarrow> real \<Rightarrow> real \<Rightarrow> real option \<Rightarrow> real option list" where
  "sample_uniformly uniform rng num_samples low high offset =
     (case offset of
        None \<Rightarrow> map (\<lambda>i. Some (uniform rng num_samples low high i)) [0..<num_samples]
      | Some off \<Rightarrow>
          map (\<lambda>i. float_mod (uniform rng 1 low high 0 + real i / real num_samples)
                              ((high - low) - off))
              [0..<num_samples])"


text \<open>Two draws used at concrete inputs: the midpoint and the first quarter of the range.\<close>

definition draw_mid :: "unit uniform_fn" where
  "draw_mid rng n minval maxval i = minval + (maxval - minval) / 2"


section \<open>Persistence stubs of \<open>OTFlowMatching\<close>: \<open>ott/neural/solvers/otfm.py\<close>\<close>

text \<open>
  \<^verbatim>\<open>
  def save(self, path: str) -> None:
    raise NotImplementedError
  def load(self, path: str) -> "OTFlowMatching":
    raise NotImplementedError
  def training_logs(self) -> Dict[str, Any]:
    raise NotImplementedError
  \<close>
  The methods neither read nor write the trainer \<open>self\<close>; a call that returned would
  give \<open>Inr\<close>.
\<close>

definition save :: "'t \<Rightarrow> string \<Rightarrow> py_error + unit" where
  "save self path = Inl (NotImplementedError [])"

definition load :: "'t \<Rightarrow> string \<Rightarrow> py_error + 't" where
  "load self path = Inl (NotImplementedError [])"

definition training_logs :: "'t \<Rightarrow> py_error + (string \<rightharpoonup> 'v)" where
  "training_logs self = Inl (NotImplementedError [])"

section \<open>Matching dispatch: \<open>tests/neural/genot_test.py\<close>\<close>

text \<open>
  \<^verbatim>\<open>
  def data_match_fn(src_lin, tgt_lin, src_quad, tgt_quad, *, typ):
    if typ == "lin":
      return utils.match_linear(x=src_lin, y=tgt_lin)
    if typ == "quad":
      return utils.match_quadratic(xx=src_quad, yy=tgt_quad)
    if typ == "fused":
      return utils.match_quadratic(xx=src_quad, yy=tgt_quad, x=src_lin, y=tgt_lin)
    raise NotImplementedError(f"Unknown type: {typ}.")
  \<close>
  The two helpers of \<open>utils\<close> are parameters; the optional arrays are options, and the
  keyword arguments \<open>x\<close>, \<open>y\<close> of \<open>match_quadratic\<close> default to \<open>None\<close>.
\<close>

definition data_match_fn ::
  "('a option \<Rightarrow> 'a option \<Rightarrow> 'm) \<Rightarrow>
   ('a option \<Rightarrow> 'a option \<Rightarrow> 'a option \<Rightarrow> 'a option \<Rightarrow> 'm) \<Rightarrow>
   'a option \<Rightarrow> 'a option \<Rightarrow> 'a option \<Rightarrow> 'a option \<Rightarrow> string \<Rightarrow> py_error + 'm" where
  "data_match_fn match_linear match_quadratic src_lin tgt_lin src_quad tgt_quad typ =
     (if typ = ''lin'' then Inr (match_linear src_lin tgt_lin)
      else if typ = ''quad'' then Inr (match_quadratic src_quad tgt_quad None None)
      else if typ = ''fused'' then Inr (match_quadratic src_quad tgt_quad src_lin tgt_lin)
      else Inl (NotImplementedError (''Unknown type: '' @ typ @ ''.'')))"

section \<open>Training loop of \<open>OTFlowMatching\<close>: \<open>ott/neural/solvers/otfm.py\<close>\<close>

text \<open>
  Configured collaborators (the OT solver, the rescaling networks, the callback, the
  checkpoint manager) are opaque objects; the code only tests them against \<open>None\<close> and
  hands them on.
\<close>

datatype opaque = Opaque string

text \<open>The dictionary \<open>batch\<close> with its three keys.\<close>

record 'a batch =
  source :: 'a
  target :: 'a
  condition :: "'a option"

text \<open>
  The attributes of \<open>self\<close> that \<open>__call__\<close> reads or writes. \<open>state_mlp\<close> is read by the
  checkpoint branch and assigned nowhere in the class; whether the mixins define it is
  left open: \<open>None\<close> is a missing attribute, \<open>Some v\<close> an attribute of value \<open>v\<close>.
\<close>

record ('k, 's) otfm =
  iterations :: int
  valid_freq :: int
  input_dim :: nat
  ot_solver :: "opaque option"
  mlp_eta :: "opaque option"
  mlp_xi :: "opaque option"
  callback_fn :: "opaque option"
  checkpoint_manager :: "opaque option"
  rng :: 'k
  state_neural_vector_field :: 's
  state_eta :: "'s option"
  state_xi :: "'s option"
  state_mlp :: "'s option option"

text \<open>
  Calls that leave the class are recorded in a trace, in the order in which they return.
\<close>

datatype 'a event =
    NextTrain
  | MatchFn
  | ResampleData
  | StepFn
  | UnbalancednessStepFn
  | NextValid
  | CallbackFn "'a batch" 'a 'a
  | CheckpointSave int "string list"

text \<open>
  The collaborators as functions. An iterator is an object identified by a number;
  \<open>items r p\<close> is what iterator \<open>r\<close> yields at its \<open>p\<close>-th \<open>next\<close>, \<open>None\<close> when it is exhausted.
  \<open>split key num i\<close> is \<open>random.split(key, num)[i]\<close>; \<open>value_and_grad_loss\<close> is
  \<open>jax.value_and_grad(loss_fn)\<close> of the step function, \<open>normal key n d\<close> is
  \<open>random.normal(key, shape=(n, d))\<close>.
\<close>

record ('k, 'a, 's) env =
  split :: "'k \<Rightarrow> nat \<Rightarrow> nat \<Rightarrow> 'k"
  items :: "nat \<Rightarrow> nat \<Rightarrow> ('a \<times> 'a \<times> 'a option) option"
  sinkhorn_match_fn :: "opaque \<Rightarrow> 'a \<Rightarrow> 'a \<Rightarrow> 'a"
  resample_data :: "'k \<Rightarrow> 'a \<Rightarrow> 'a \<times> 'a option \<Rightarrow> 'a \<Rightarrow> ('a \<times> 'a option) \<times> 'a"
  len :: "'a \<Rightarrow> nat"
  time_sampler :: "'k \<Rightarrow> nat \<Rightarrow> 'a"
  normal :: "'k \<Rightarrow> nat \<Rightarrow> nat \<Rightarrow> 'a"
  value_and_grad_loss :: "'s \<Rightarrow> 'a \<Rightarrow> 'a \<Rightarrow> 'a batch \<Rightarrow> 'k list \<Rightarrow> 'a \<times> 'a"
  apply_gradients :: "'s \<Rightarrow> 'a \<Rightarrow> 's"
  sum_axis :: "'a \<Rightarrow> nat \<Rightarrow> 'a"
  unbalancedness_step_fn ::
    "'s option \<times> 's option \<Rightarrow> 'a batch \<Rightarrow> 'a \<Rightarrow> 'a \<Rightarrow> 's option \<times> 's option"

text \<open>What a run changes: the trainer, the positions of the iterators, the trace.\<close>

record ('k, 'a, 's) world =
  trainer :: "('k, 's) otfm"
  pos :: "nat \<Rightarrow> nat"
  trace :: "'a event list"

definition emit :: "'a event \<Rightarrow> ('k, 'a, 's) world \<Rightarrow> ('k, 'a, 's) world" where
  "emit e w = w\<lparr>trace := trace w @ [e]\<rparr>"

text \<open>\<open>next(loader)\<close>: the item at the iterator's position, or \<open>StopIteration\<close>.\<close>

definition next_py ::
  "('k, 'a, 's) env \<Rightarrow> nat \<Rightarrow> ('k, 'a, 's) world
   \<Rightarrow> py_error + (('a \<times> 'a \<times> 'a option) \<times> ('k, 'a, 's) world)" where
  "next_py E r w =
     (case items E r (pos w r) of
        None \<Rightarrow> Inl StopIteration
      | Some b \<Rightarrow> Inr (b, w\<lparr>pos := (pos w)(r := Suc (pos w r))\<rparr>))"

text \<open>
  \<^verbatim>\<open>
  def sample_noise(self, key, batch_size):
    return random.normal(key, shape=(batch_size, self.input_dim))
  \<close>
\<close>

definition sample_noise :: "('k, 'a, 's) env \<Rightarrow> ('k, 's) otfm \<Rightarrow> 'k \<Rightarrow> nat \<Rightarrow> 'a" where
  "sample_noise E self key batch_size = normal E key batch_size (input_dim self)"

text \<open>
  \<^verbatim>\<open>
  batch_size = len(batch["source"])
  key_noise, key_t, key_model = random.split(key, 3)
  keys_model = random.split(key_model, batch_size)
  t = self.time_sampler(key_t, batch_size)
  noise = self.sample_noise(key_noise, batch_size)
  grad_fn = jax.value_and_grad(loss_fn)
  loss, grads = grad_fn(state_neural_vector_field.params, t, noise, batch, keys_model)
  return state_neural_vector_field.apply_gradients(grads=grads), loss
  \<close>
\<close>

definition step_fn ::
  "('k, 'a, 's) env \<Rightarrow> ('k, 's) otfm \<Rightarrow> 'k \<Rightarrow> 's \<Rightarrow> 'a batch \<Rightarrow> 's \<times> 'a" where
  "step_fn E self key st batch =
     (let batch_size = len E (source batch);
          key_noise = split E key 3 0;
          key_t = split E key 3 1;
          key_model = split E key 3 2;
          keys_model = map (split E key_model batch_size) [0..<batch_size];
          t = time_sampler E key_t batch_size;
          noise = sample_noise E self key_noise batch_size;
          (loss, grads) = value_and_grad_loss E st t noise batch keys_model
      in (apply_gradients E st grads, loss))"

text \<open>
  \<^verbatim>\<open>
  @property
  def learn_rescaling(self) -> bool:
    return self.mlp_eta is not None or self.mlp_xi is not None
  \<close>
\<close>

definition learn_rescaling :: "('k, 's) otfm \<Rightarrow> bool" where
  "learn_rescaling self = (mlp_eta self \<noteq> None \<or> mlp_xi self \<noteq> None)"

text \<open>
  \<^verbatim>\<open>
  def _valid_step(self, valid_loader, iter) -> None:
    next(valid_loader)
    # TODO: add callback and logging
  \<close>
  An exception leaves with the world as it was when it was raised.
\<close>

definition valid_step ::
  "('k, 'a, 's) env \<Rightarrow> nat \<Rightarrow> int \<Rightarrow> ('k, 'a, 's) world
   \<Rightarrow> py_error \<times> ('k, 'a, 's) world + ('k, 'a, 's) world" where
  "valid_step E valid_loader iter w =
     (case next_py E valid_loader w of
        Inl e \<Rightarrow> Inl (e, w)
      | Inr (b, w') \<Rightarrow> Inr (emit NextValid w'))"

text \<open>
  The body of the loop of \<open>__call__\<close>, in four parts. The local variable \<open>tmat\<close> is an
  option: \<open>None\<close> while no assignment has reached it.
  \<^verbatim>\<open>
  rng_resample, rng_step_fn, self.rng = random.split(self.rng, 3)
  batch["source"], batch["target"], batch["condition"] = next(train_loader)
  if self.ot_solver is not None:
    tmat = self.match_fn(batch["source"], batch["target"])
    (batch["source"], batch["condition"]), (batch["target"],) = self._resample_data(
        rng_resample, tmat, (batch["source"], batch["condition"]), (batch["target"],))
  self.state_neural_vector_field, loss = self.step_fn(
      rng_step_fn, self.state_neural_vector_field, batch)
  \<close>
\<close>

definition match_part ::
  "('k, 'a, 's) env \<Rightarrow> 'k \<Rightarrow> 'a batch \<Rightarrow> 'a option \<Rightarrow> ('k, 'a, 's) world
   \<Rightarrow> 'a batch \<times> 'a option \<times> ('k, 'a, 's) world" where
  "match_part E rng_resample batch tmat w =
     (case ot_solver (trainer w) of
        None \<Rightarrow> (batch, tmat, w)
      | Some solver \<Rightarrow>
          (let tm = sinkhorn_match_fn E solver (source batch) (target batch);
               ((s, c), t) = resample_data E rng_resample tm (source batch, condition batch)
                               (target batch)
           in (\<lparr>source = s, target = t, condition = c\<rparr>, Some tm,
               emit ResampleData (emit MatchFn w))))"

definition gradient_part ::
  "('k, 'a, 's) env \<Rightarrow> 'k \<Rightarrow> 'a batch \<Rightarrow> ('k, 'a, 's) world \<Rightarrow> ('k, 'a, 's) world" where
  "gradient_part E rng_step_fn batch w =
     (let (st, loss) = step_fn E (trainer w) rng_step_fn
                         (state_neural_vector_field (trainer w)) batch
      in emit StepFn (w\<lparr>trainer := (trainer w)\<lparr>state_neural_vector_field := st\<rparr>\<rparr>))"

text \<open>
  \<^verbatim>\<open>
  if self.learn_rescaling:
    self.state_eta, self.state_xi, eta_predictions, xi_predictions, loss_a, loss_b = \
      self.unbalancedness_step_fn(batch, tmat.sum(axis=1), tmat.sum(axis=0))
  \<close>
  Reading \<open>tmat\<close> before any assignment raises \<open>UnboundLocalError\<close>.
\<close>

definition rescaling_part ::
  "('k, 'a, 's) env \<Rightarrow> 'a batch \<Rightarrow> 'a option \<Rightarrow> ('k, 'a, 's) world
   \<Rightarrow> py_error \<times> ('k, 'a, 's) world + ('k, 'a, 's) world" where
  "rescaling_part E batch tmat w =
     (if learn_rescaling (trainer w) then
        (case tmat of
           None \<Rightarrow> Inl (UnboundLocalError ''tmat'', w)
         | Some tm \<Rightarrow>
             (let (eta, xi) = unbalancedness_step_fn E
                    (state_eta (trainer w), state_xi (trainer w)) batch
                    (sum_axis E tm 1) (sum_axis E tm 0)
              in Inr (emit UnbalancednessStepFn
                   (w\<lparr>trainer := (trainer w)\<lparr>state_eta := eta, state_xi := xi\<rparr>\<rparr>))))
      else Inr w)"

text \<open>
  \<^verbatim>\<open>
  if iter % self.valid_freq == 0:
    self._valid_step(valid_loader, iter)
    if self.checkpoint_manager is not None:
      states_to_save = {"state_neural_vector_field": self.state_neural_vector_field}
      if self.state_mlp is not None:
        states_to_save["state_eta"] = self.state_mlp
      if self.state_xi is not None:
        states_to_save["state_xi"] = self.state_xi
      self.checkpoint_manager.save(iter, states_to_save)
  \<close>
  The remainder of two Python integers takes the sign of the divisor, as \<open>mod\<close> on \<open>int\<close>
  does, and raises \<open>ZeroDivisionError\<close> for the divisor zero. The checkpoint event records
  the step and the keys of \<open>states_to_save\<close>.
\<close>

definition checkpoint_part ::
  "int \<Rightarrow> ('k, 'a, 's) world \<Rightarrow> py_error \<times> ('k, 'a, 's) world + ('k, 'a, 's) world" where
  "checkpoint_part iter w =
     (case checkpoint_manager (trainer w) of
        None \<Rightarrow> Inr w
      | Some manager \<Rightarrow>
          (case state_mlp (trainer w) of
             None \<Rightarrow> Inl (AttributeError ''state_mlp'', w)
           | Some mlp \<Rightarrow>
               Inr (emit (CheckpointSave iter
                      ([''state_neural_vector_field'']
                       @ (if mlp \<noteq> None then [''state_eta''] else [])
                       @ (if state_xi (trainer w) \<noteq> None then [''state_xi''] else []))) w)))"

definition validation_part ::
  "('k, 'a, 's) env \<Rightarrow> nat \<Rightarrow> int \<Rightarrow> ('k, 'a, 's) world
   \<Rightarrow> py_error \<times> ('k, 'a, 's) world + ('k, 'a, 's) world" where
  "validation_part E valid_loader iter w =
     (if valid_freq (trainer w) = 0 then Inl (ZeroDivisionError, w)
      else if iter mod valid_freq (trainer w) = 0 then
        (case valid_step E valid_loader iter w of
           Inl x \<Rightarrow> Inl x
         | Inr w' \<Rightarrow> checkpoint_part iter w')
      else Inr w)"

definition loop_body ::
  "('k, 'a, 's) env \<Rightarrow> nat \<Rightarrow> nat \<Rightarrow> int \<Rightarrow> ('k, 'a, 's) world \<times> 'a option
   \<Rightarrow> py_error \<times> ('k, 'a, 's) world + ('k, 'a, 's) world \<times> 'a option" where
  "loop_body E train_loader valid_loader iter wt =
     (let (w, tmat) = wt;
          rng_resample = split E (rng (trainer w)) 3 0;
          rng_step_fn = split E (rng (trainer w)) 3 1;
          w1 = w\<lparr>trainer := (trainer w)\<lparr>rng := split E (rng (trainer w)) 3 2\<rparr>\<rparr>
      in case next_py E train_loader w1 of
           Inl e \<Rightarrow> Inl (e, w1)
         | Inr ((src, tgt, cond), w2) \<Rightarrow>
             (let (batch, tmat', w3) =
                    match_part E rng_resample
                      \<lparr>source = src, target = tgt, condition = cond\<rparr> tmat (emit NextTrain w2);
                  w4 = gradient_part E rng_step_fn batch w3
              in case rescaling_part E batch tmat' w4 of
                   Inl x \<Rightarrow> Inl x
                 | Inr w5 \<Rightarrow>
                     (case validation_part E valid_loader iter w5 of
                        Inl x \<Rightarrow> Inl x
                      | Inr w6 \<Rightarrow> Inr (w6, tmat'))))"

text \<open>
  \<open>for iter in range(self.iterations)\<close>: the body runs for \<open>iter = 0, 1, ...\<close> below
  \<open>iterations\<close> (no value when \<open>iterations\<close> is not positive) and an exception ends the run.
\<close>

fun run_iters ::
  "('k, 'a, 's) env \<Rightarrow> nat \<Rightarrow> nat \<Rightarrow> int list \<Rightarrow> ('k, 'a, 's) world \<times> 'a option
   \<Rightarrow> py_error \<times> ('k, 'a, 's) world + ('k, 'a, 's) world" where
  "run_iters E train_loader valid_loader [] wt = Inr (fst wt)"
| "run_iters E train_loader valid_loader (iter # rest) wt =
     (case loop_body E train_loader valid_loader iter wt of
        Inl x \<Rightarrow> Inl x
      | Inr wt' \<Rightarrow> run_iters E train_loader valid_loader rest wt')"

definition call ::
  "('k, 'a, 's) env \<Rightarrow> nat \<Rightarrow> nat \<Rightarrow> ('k, 'a, 's) world
   \<Rightarrow> py_error \<times> ('k, 'a, 's) world + ('k, 'a, 's) world" where
  "call E train_loader valid_loader w =
     run_iters E train_loader valid_loader
       (map int [0..<nat (iterations (trainer w))]) (w, None)"

text \<open>The training steps of a trace: its draws from the training iterator and its
  gradient updates, in order.\<close>

definition training_steps :: "'a event list \<Rightarrow> 'a event list" where
  "training_steps tr = filter (\<lambda>e. e = NextTrain \<or> e = StepFn) tr"

section \<open>Validation step of \<open>FlowMatching\<close>: \<open>ott/neural/solvers/flow_matching.py\<close>\<close>

text \<open>
  \<^verbatim>\<open>
  def _valid_step(self, valid_loader, iter) -> None:
    batch = next(valid_loader)
    batch, a, b = self.match_fn(batch)
    if not self.is_balanced:
      self.unbalancedness_step_fn(batch, a, b)
    if self.callback_fn is not None:
      self.callback_fn(batch, a, b)
  \<close>
  \<open>match_fn\<close> and \<open>is_balanced\<close> come from mixins and are parameters; the result of the
  rescaling update is dropped, as in the source.
\<close>

definition fm_valid_step ::
  "('k, 'a, 's) env \<Rightarrow> ('a batch \<Rightarrow> 'a batch \<times> 'a \<times> 'a) \<Rightarrow> bool \<Rightarrow> nat \<Rightarrow> int
   \<Rightarrow> ('k, 'a, 's) world \<Rightarrow> py_error \<times> ('k, 'a, 's) world + ('k, 'a, 's) world" where
  "fm_valid_step E match_fn is_balanced valid_loader iter w =
     (case next_py E valid_loader w of
        Inl e \<Rightarrow> Inl (e, w)
      | Inr ((src, tgt, cond), w1) \<Rightarrow>
          (let (batch, a, b) = match_fn \<lparr>source = src, target = tgt, condition = cond\<rparr>;
               w2 = emit MatchFn (emit NextValid w1);
               w3 = (if \<not> is_balanced then emit UnbalancednessStepFn w2 else w2);
               w4 = (if callback_fn (trainer w3) \<noteq> None then emit (CallbackFn batch a b) w3
                     else w3)
           in Inr w4))"

section \<open>Configurations and observations used in the statements\<close>

text \<open>
  \<open>same_config\<close>: two trainers agree on the attributes that \<open>__call__\<close> only reads.
  \<open>runs_clean\<close>: nothing in the loop can raise: the iterators are inexhaustible,
  \<open>valid_freq\<close> is not zero, rescaling comes with an OT solver, and a checkpoint manager
  comes with an attribute \<open>state_mlp\<close>.
\<close>

definition same_config :: "('k, 's) otfm \<Rightarrow> ('k, 's) otfm \<Rightarrow> bool" where
  "same_config self self' =
     (iterations self' = iterations self \<and> valid_freq self' = valid_freq self
      \<and> ot_solver self' = ot_solver self \<and> mlp_eta self' = mlp_eta self
      \<and> mlp_xi self' = mlp_xi self \<and> checkpoint_manager self' = checkpoint_manager self
      \<and> state_mlp self' = state_mlp self)"


text \<open>
  \<open>outcome\<close>: the exception of a run, if any, and the trace at its end. \<open>test_env\<close>,
  \<open>test_trainer\<close>, \<open>test_world\<close>: a run with \<open>iterations = 3\<close> and \<open>valid_freq = 2\<close>, as in
  \<open>tests/neural/otfm_test.py\<close>, over small stand-ins for the numerical collaborators and
  inexhaustible iterators.
\<close>

definition outcome ::
  "py_error \<times> ('k, 'a, 's) world + ('k, 'a, 's) world \<Rightarrow> py_error option \<times> 'a event list" where
  "outcome r = (case r of Inl (e, w) \<Rightarrow> (Some e, trace w) | Inr w \<Rightarrow> (None, trace w))"

definition test_env :: "(nat, nat, nat) env" where
  "test_env =
     \<lparr>split = (\<lambda>key num i. 3 * key + i + 1),
      items = (\<lambda>r p. Some (p, p + 1, None)),
      sinkhorn_match_fn = (\<lambda>solver x y. x + y),
      resample_data = (\<lambda>key tm sc t. (sc, t)),
      len = (\<lambda>a. 1),
      time_sampler = (\<lambda>key n. 0),
      normal = (\<lambda>key n d. 0),
      value_and_grad_loss = (\<lambda>st t noise b keys. (0, 1)),
      apply_gradients = (\<lambda>st g. st + g),
      sum_axis = (\<lambda>a axis. a),
      unbalancedness_step_fn = (\<lambda>states b x y. states)\<rparr>"

definition test_trainer :: "opaque option \<Rightarrow> opaque option \<Rightarrow> (nat, nat) otfm" where
  "test_trainer solver eta =
     \<lparr>iterations = 3, valid_freq = 2, input_dim = 2, ot_solver = solver, mlp_eta = eta,
      mlp_xi = None, callback_fn = Some (Opaque ''callback''), checkpoint_manager = None,
      rng = 0, state_neural_vector_field = 0, state_eta = None, state_xi = None,
      state_mlp = None\<rparr>"

definition test_world :: "opaque option \<Rightarrow> opaque option \<Rightarrow> (nat, nat, nat) world" where
  "test_world solver eta = \<lparr>trainer = test_trainer solver eta, pos = (\<lambda>r. 0), trace = []\<rparr>"

section \<open>ODE transport of \<open>OTFlowMatching\<close>: \<open>ott/neural/solvers/otfm.py\<close>\<close>














section \<open>Cost history of the barycenter solver\<close>

text \<open>
  Modelled from the spec: the solver \<open>ott.core.continuous_barycenter.WassersteinBarycenter\<close>
  is not among the sources, only its test is. Section 4.7 of the specification: the solver
  stops when successive total costs differ by less than a threshold, or after a maximum
  iteration budget; it tracks a bounded trailing history of costs, initialised to a
  sentinel value that marks the entries not yet computed. The total cost reached in
  iteration \<open>i\<close> is the parameter \<open>cost_of i\<close>; the history has one slot per iteration of
  the budget, and the sentinel is the \<open>-1\<close> that the test filters out.
\<close>

definition sentinel :: real where
  "sentinel = - 1"

definition init_costs :: "nat \<Rightarrow> real list" where
  "init_costs max_iterations = replicate max_iterations sentinel"

text \<open>
  Modelled from the spec: "successive total costs differ by less than a threshold" is
  \<open>differ_less threshold\<close>. The test compares with \<open>jnp.isclose(a, b, rtol=threshold)\<close>,
  that is \<open>|a - b| <= atol + rtol * |b|\<close> with the default \<open>atol = 1e-8\<close>. The solver
  below takes the comparison as its parameter \<open>close\<close>, so that both readings of "within
  the threshold" are instances.
\<close>

definition differ_less :: "real \<Rightarrow> real \<Rightarrow> real \<Rightarrow> bool" where
  "differ_less threshold a b = (\<bar>a - b\<bar> < threshold)"

definition isclose :: "real \<Rightarrow> real \<Rightarrow> real \<Rightarrow> bool" where
  "isclose rtol a b = (\<bar>a - b\<bar> \<le> 1 / 10 ^ 8 + rtol * \<bar>b\<bar>)"

text \<open>
  Modelled from the spec: the iteration of the missing solver. Iteration \<open>i\<close> writes its
  total cost into slot \<open>i\<close> of the history; the solver stops when the cost is close to
  the one before it, or when the budget (the length of the history) is used up.
\<close>

function bary_iterate ::
  "(real \<Rightarrow> real \<Rightarrow> bool) \<Rightarrow> (nat \<Rightarrow> real) \<Rightarrow> nat \<Rightarrow> real list \<Rightarrow> real list" where
  "bary_iterate close cost_of i costs =
     (if length costs \<le> i then costs
      else (let costs' = costs[i := cost_of i]
            in if 0 < i \<and> close (costs' ! (i - 1)) (costs' ! i) then costs'
               else bary_iterate close cost_of (Suc i) costs'))"
  by pat_completeness auto
termination
  by (relation "measure (\<lambda>(close, cost_of, i, costs). length costs - i)") auto

declare bary_iterate.simps [simp del]

definition barycenter_costs ::
  "(real \<Rightarrow> real \<Rightarrow> bool) \<Rightarrow> (nat \<Rightarrow> real) \<Rightarrow> nat \<Rightarrow> real list" where
  "barycenter_costs close cost_of max_iterations =
     bary_iterate close cost_of 0 (init_costs max_iterations)"

text \<open>
  The check of \<open>tests/core/continuous_barycenter_test.py\<close>:
  \<^verbatim>\<open>
  costs = out.costs
  costs = costs[costs > -1]
  self.assertTrue(jnp.isclose(costs[-2], costs[-1], rtol=threshold))
  \<close>
  \<open>recorded\<close> drops the sentinel entries; \<open>last_two_agree\<close> compares the last two entries
  and is false when there are fewer than two.
\<close>

definition recorded :: "real list \<Rightarrow> real list" where
  "recorded costs = filter (\<lambda>c. c > - 1) costs"

definition last_two_agree :: "(real \<Rightarrow> real \<Rightarrow> bool) \<Rightarrow> real list \<Rightarrow> bool" where
  "last_two_agree close cs =
     (2 \<le> length cs \<and> close (cs ! (length cs - 2)) (cs ! (length cs - 1)))"

text \<open>\<open>history cost_of n k\<close>: \<open>k\<close> computed costs followed by sentinels, \<open>n\<close> slots in all.\<close>

definition history :: "(nat \<Rightarrow> real) \<Rightarrow> nat \<Rightarrow> nat \<Rightarrow> real list" where
  "history cost_of n k = map cost_of [0..<k] @ replicate (n - k) sentinel"

text \<open>Two cost sequences for concrete runs: one that keeps falling by one, and one that
  settles at \<open>5\<close> from its third value on.\<close>

definition falling :: "nat \<Rightarrow> real" where
  "falling i = 10 - real i"

definition settling :: "nat \<Rightarrow> real" where
  "settling i = (if i < 2 then real i else 5)"

section \<open>Properties of the time sampler\<close>



lemma float_mod_range:
  assumes "0 < m" and "float_mod x m = Some r"
  shows "0 \<le> r \<and> r < m"
proof -
  have r: "r = x - m * of_int \<lfloor>x / m\<rfloor>"
    using assms by (simp add: float_mod_def)
  have "of_int \<lfloor>x / m\<rfloor> \<le> x / m" by simp
  then have "of_int \<lfloor>x / m\<rfloor> * m \<le> x"
    using assms(1) by (simp only: pos_le_divide_eq)
  then have lo: "m * of_int \<lfloor>x / m\<rfloor> \<le> x"
    by (simp add: mult.commute)
  have "x / m < of_int \<lfloor>x / m\<rfloor> + 1" by linarith
  then have "x < (of_int \<lfloor>x / m\<rfloor> + 1) * m"
    using assms(1) by (simp only: pos_divide_less_eq)
  then have hi: "x - m * of_int \<lfloor>x / m\<rfloor> < m"
    by (simp add: algebra_simps)
  show ?thesis using r lo hi by simp
qed

text \<open>
  What the two variants do return: the plain variant stays in \<open>[low, high)\<close> whenever the
  draws of \<open>jax.random.uniform\<close> do, and the offset variant, for a positive modulus, lies
  in \<open>[0, (high - low) - offset)\<close>.
\<close>

lemma sample_uniformly_plain_range:
  assumes "\<forall>i < n. low \<le> uniform key n low high i \<and> uniform key n low high i < high"
    and "s \<in> set (sample_uniformly uniform key n low high None)"
  shows "\<exists>r. s = Some r \<and> low \<le> r \<and> r < high"
  using assms by (auto simp: sample_uniformly_def)

lemma sample_uniformly_offset_range:
  assumes "0 < (high - low) - off"
    and "s \<in> set (sample_uniformly uniform key n low high (Some off))"
  shows "\<exists>r. s = Some r \<and> 0 \<le> r \<and> r < (high - low) - off"
proof -
  from assms(2) obtain i where
    s: "s = float_mod (uniform key 1 low high 0 + real i / real n) ((high - low) - off)"
    by (auto simp: sample_uniformly_def)
  then obtain r where r: "s = Some r"
    using assms(1) by (simp add: float_mod_def)
  then show ?thesis
    using float_mod_range [OF assms(1)] s by metis
qed

text \<open>
  C1 (fails on the code). The claim: for \<open>low < high\<close> and \<open>num_samples > 0\<close> every
  sample lies in \<open>[low, high)\<close>, with and without offset. The offset variant reduces
  the draw modulo \<open>(high - low) - offset\<close> and never adds \<open>low\<close> back: with
  \<open>low = 1\<close>, \<open>high = 2\<close>, \<open>offset = 0\<close>, one sample and the draw \<open>1.5\<close> (a value of
  \<open>[1, 2)\<close>), the sample returned is \<open>0.5\<close>, below \<open>low\<close>.
\<close>

theorem sample_uniformly_offset_below_low:
  "sample_uniformly draw_mid () 1 1 2 (Some 0) = [Some (1 / 2)]
   \<and> draw_mid () 1 1 2 0 = 3 / 2 \<and> \<not> (1 \<le> (1 / 2 :: real))"
  by (simp add: sample_uniformly_def draw_mid_def float_mod_def)




section \<open>Properties of the persistence stubs and of the matching dispatch\<close>

text \<open>
  C6. For every trainer and every argument, \<open>save\<close>, \<open>load\<close> and \<open>training_logs\<close>
  raise \<open>NotImplementedError\<close>; none of them returns.
\<close>

theorem persistence_unimplemented:
  "save self path = Inl (NotImplementedError [])
   \<and> load self' path' = Inl (NotImplementedError [])
   \<and> training_logs self'' = Inl (NotImplementedError [])"
  by (simp add: save_def load_def training_logs_def)

text \<open>
  C7. The dispatch returns a coupling matrix, the result of the helper of its kind, for
  each of the three known kinds (the literals \<open>lin\<close>, \<open>quad\<close> and \<open>fused\<close> of the
  source), and raises \<open>NotImplementedError\<close> for every other value of \<open>typ\<close>, without
  calling a helper.
\<close>

theorem data_match_fn_dispatch:
  "(ty = ''lin'' \<longrightarrow>
      data_match_fn ml mq src_lin tgt_lin src_quad tgt_quad ty = Inr (ml src_lin tgt_lin))
   \<and> (ty = ''quad'' \<longrightarrow>
      data_match_fn ml mq src_lin tgt_lin src_quad tgt_quad ty
        = Inr (mq src_quad tgt_quad None None))
   \<and> (ty = ''fused'' \<longrightarrow>
      data_match_fn ml mq src_lin tgt_lin src_quad tgt_quad ty
        = Inr (mq src_quad tgt_quad src_lin tgt_lin))
   \<and> (ty \<notin> {''lin'', ''quad'', ''fused''} \<longrightarrow>
      data_match_fn ml mq src_lin tgt_lin src_quad tgt_quad ty
        = Inl (NotImplementedError (''Unknown type: '' @ ty @ ''.'')))"
  by (simp add: data_match_fn_def)

theorem data_match_fn_dispatch_witness:
  "data_match_fn (\<lambda>x y. (10::nat)) (\<lambda>xx yy x y. if x = None then 20 else 30)
      (Some (1::nat)) (Some 2) (Some 3) (Some 4) ''lin'' = Inr 10
   \<and> data_match_fn (\<lambda>x y. (10::nat)) (\<lambda>xx yy x y. if x = None then 20 else 30)
      (Some (1::nat)) (Some 2) (Some 3) (Some 4) ''quad'' = Inr 20
   \<and> data_match_fn (\<lambda>x y. (10::nat)) (\<lambda>xx yy x y. if x = None then 20 else 30)
      (Some (1::nat)) (Some 2) (Some 3) (Some 4) ''fused'' = Inr 30
   \<and> ''linear'' \<notin> {''lin'', ''quad'', ''fused''}
   \<and> data_match_fn (\<lambda>x y. (10::nat)) (\<lambda>xx yy x y. if x = None then 20 else 30)
      (Some (1::nat)) (Some 2) (Some 3) (Some 4) ''linear''
        = Inl (NotImplementedError ''Unknown type: linear.'')"
  using data_match_fn_dispatch [where ty = "''lin''" and ml = "\<lambda>x y. (10::nat)"
          and mq = "\<lambda>xx yy x y. if x = None then 20 else 30"
          and src_lin = "Some (1::nat)" and tgt_lin = "Some 2"
          and src_quad = "Some 3" and tgt_quad = "Some 4"]
        data_match_fn_dispatch [where ty = "''quad''" and ml = "\<lambda>x y. (10::nat)"
          and mq = "\<lambda>xx yy x y. if x = None then 20 else 30"
          and src_lin = "Some (1::nat)" and tgt_lin = "Some 2"
          and src_quad = "Some 3" and tgt_quad = "Some 4"]
        data_match_fn_dispatch [where ty = "''fused''" and ml = "\<lambda>x y. (10::nat)"
          and mq = "\<lambda>xx yy x y. if x = None then 20 else 30"
          and src_lin = "Some (1::nat)" and tgt_lin = "Some 2"
          and src_quad = "Some 3" and tgt_quad = "Some 4"]
        data_match_fn_dispatch [where ty = "''linear''" and ml = "\<lambda>x y. (10::nat)"
          and mq = "\<lambda>xx yy x y. if x = None then 20 else 30"
          and src_lin = "Some (1::nat)" and tgt_lin = "Some 2"
          and src_quad = "Some 3" and tgt_quad = "Some 4"]
  by simp

section \<open>Properties of the training loop\<close>

lemma same_config_refl: "same_config self self"
  by (simp add: same_config_def)

lemma same_config_trans:
  "same_config a b \<Longrightarrow> same_config b c \<Longrightarrow> same_config a c"
  by (simp add: same_config_def)


lemma emit_simps:
  "trace (emit e w) = trace w @ [e]" "trainer (emit e w) = trainer w" "pos (emit e w) = pos w"
  by (simp_all add: emit_def)

lemma training_steps_append:
  "training_steps (tr1 @ tr2) = training_steps tr1 @ training_steps tr2"
  by (simp add: training_steps_def)

lemma training_steps_single:
  "training_steps [] = []"
  "training_steps (e # es)
     = (if e = NextTrain \<or> e = StepFn then e # training_steps es else training_steps es)"
  by (simp_all add: training_steps_def)

lemma next_py_Inr:
  assumes "next_py E r w = Inr (b, w')"
  shows "trace w' = trace w \<and> trainer w' = trainer w"
  using assms by (auto simp: next_py_def split: option.splits)

lemma next_py_total:
  assumes "items E r (pos w r) \<noteq> None"
  shows "\<exists>b w'. next_py E r w = Inr (b, w')"
  using assms by (auto simp: next_py_def split: option.splits)

lemma match_part_result:
  assumes "match_part E k batch tmat w = (batch', tmat', w')"
  shows "training_steps (trace w') = training_steps (trace w) \<and> trainer w' = trainer w
         \<and> (ot_solver (trainer w) \<noteq> None \<longrightarrow> tmat' \<noteq> None)
         \<and> (ot_solver (trainer w) = None \<longrightarrow> tmat' = tmat)"
  using assms
  by (auto simp: match_part_def Let_def emit_simps training_steps_append training_steps_single
           split: option.splits prod.splits)

lemma gradient_part_result:
  "trace (gradient_part E k batch w) = trace w @ [StepFn]
   \<and> same_config (trainer w) (trainer (gradient_part E k batch w))"
  by (simp add: gradient_part_def Let_def emit_simps same_config_def split: prod.splits)

lemma rescaling_part_Inr:
  assumes "rescaling_part E batch tmat w = Inr w'"
  shows "training_steps (trace w') = training_steps (trace w)
         \<and> same_config (trainer w) (trainer w')"
  using assms
  by (auto simp: rescaling_part_def Let_def emit_simps same_config_def
                 training_steps_append training_steps_single
           split: if_splits option.splits prod.splits)


lemma valid_step_Inr:
  assumes "valid_step E vl iter w = Inr w'"
  shows "trace w' = trace w @ [NextValid] \<and> trainer w' = trainer w"
  using assms
  by (auto simp: valid_step_def emit_simps split: sum.splits dest: next_py_Inr)

lemma checkpoint_part_Inr:
  assumes "checkpoint_part iter w = Inr w'"
  shows "training_steps (trace w') = training_steps (trace w) \<and> trainer w' = trainer w"
  using assms
  by (auto simp: checkpoint_part_def emit_simps training_steps_append training_steps_single
           split: option.splits)

lemma validation_part_Inr:
  assumes "validation_part E vl iter w = Inr w'"
  shows "training_steps (trace w') = training_steps (trace w) \<and> trainer w' = trainer w"
proof (cases "iter mod valid_freq (trainer w) = 0")
  case True
  with assms obtain w1 where v: "valid_step E vl iter w = Inr w1"
    and c: "checkpoint_part iter w1 = Inr w'"
    by (auto simp: validation_part_def split: if_splits sum.splits)
  show ?thesis
    using valid_step_Inr [OF v] checkpoint_part_Inr [OF c]
    by (simp add: training_steps_append training_steps_single)
next
  case False
  with assms show ?thesis by (auto simp: validation_part_def split: if_splits)
qed


lemma loop_body_Inr:
  assumes "loop_body E trl vl iter (w, tmat) = Inr (w', tmat')"
  shows "training_steps (trace w') = training_steps (trace w) @ [NextTrain, StepFn]
         \<and> same_config (trainer w) (trainer w')"
proof -
  define w1 where "w1 = w\<lparr>trainer := (trainer w)\<lparr>rng := split E (rng (trainer w)) 3 2\<rparr>\<rparr>"
  from assms obtain src tgt cond w2 where n: "next_py E trl w1 = Inr ((src, tgt, cond), w2)"
    by (auto simp: loop_body_def Let_def w1_def split: sum.splits prod.splits)
  obtain batch tm w3 where m: "match_part E (split E (rng (trainer w)) 3 0)
      \<lparr>source = src, target = tgt, condition = cond\<rparr> tmat (emit NextTrain w2) = (batch, tm, w3)"
    by (metis prod_cases3)
  define w4 where "w4 = gradient_part E (split E (rng (trainer w)) 3 1) batch w3"
  from assms n m obtain w5 where r: "rescaling_part E batch tm w4 = Inr w5"
    and v: "validation_part E vl iter w5 = Inr w'"
    by (auto simp: loop_body_def Let_def w1_def w4_def split: sum.splits prod.splits)
  have t1: "trace w1 = trace w" and c1: "same_config (trainer w) (trainer w1)"
    by (simp_all add: w1_def same_config_def)
  note n' = next_py_Inr [OF n]
  note m' = match_part_result [OF m]
  note g' = gradient_part_result [of E "split E (rng (trainer w)) 3 1" batch w3]
  note r' = rescaling_part_Inr [OF r]
  note v' = validation_part_Inr [OF v]
  have "training_steps (trace w3) = training_steps (trace w) @ [NextTrain]"
    using m' n' t1 by (simp add: emit_simps training_steps_append training_steps_single)
  then have "training_steps (trace w4) = training_steps (trace w) @ [NextTrain, StepFn]"
    using g' by (simp add: w4_def training_steps_append training_steps_single)
  then have tr: "training_steps (trace w') = training_steps (trace w) @ [NextTrain, StepFn]"
    using r' v' by simp
  have "same_config (trainer w) (trainer w3)"
    using c1 n' m' by (simp add: emit_simps)
  then have "same_config (trainer w) (trainer w4)"
    using g' same_config_trans unfolding w4_def by blast
  then have "same_config (trainer w) (trainer w5)"
    using r' same_config_trans by blast
  then have "same_config (trainer w) (trainer w')" using v' by simp
  with tr show ?thesis by simp
qed




lemmas call_unfold = call_def loop_body_def next_py_def match_part_def gradient_part_def
  step_fn_def sample_noise_def rescaling_part_def validation_part_def valid_step_def
  checkpoint_part_def learn_rescaling_def emit_def outcome_def test_env_def test_trainer_def
  test_world_def training_steps_def Let_def

text \<open>
  C3 (fails on the code). The claim: at a validation step the trainer runs the validation
  batch through the matching function, runs the rescaling update when rescaling is
  enabled, and invokes the configured callback with the batch and the two marginals.
  \<open>_valid_step\<close> of \<open>OTFlowMatching\<close> only draws the batch (its body ends in
  \<open># TODO: add callback and logging\<close>): with a callback configured and rescaling
  enabled its trace is \<open>[NextValid]\<close>, while \<open>_valid_step\<close> of \<open>FlowMatching\<close> on the same
  world matches, rescales and calls the callback.
\<close>

theorem valid_step_only_draws_batch:
  "outcome (valid_step test_env 1 0
       (test_world (Some (Opaque ''sinkhorn'')) (Some (Opaque ''eta'')))) = (None, [NextValid])
   \<and> callback_fn (test_trainer (Some (Opaque ''sinkhorn'')) (Some (Opaque ''eta'')))
        = Some (Opaque ''callback'')
   \<and> mlp_eta (test_trainer (Some (Opaque ''sinkhorn'')) (Some (Opaque ''eta'')))
        = Some (Opaque ''eta'')
   \<and> outcome (fm_valid_step test_env (\<lambda>b. (b, 7, 8)) False 1 0
       (test_world (Some (Opaque ''sinkhorn'')) (Some (Opaque ''eta''))))
      = (None, [NextValid, MatchFn, UnbalancednessStepFn,
                CallbackFn \<lparr>source = 0, target = 1, condition = None\<rparr> 7 8])"
  by (simp add: call_unfold fm_valid_step_def)


lemma rescaling_part_Inl:
  assumes "rescaling_part E batch tm w = Inl (e, w')"
  shows "tm = None \<and> e = UnboundLocalError ''tmat'' \<and> w' = w"
  using assms
  by (auto simp: rescaling_part_def Let_def split: if_splits option.splits prod.splits)

lemma validation_part_Inl:
  assumes "validation_part E vl iter w = Inl (e, w')"
  shows "e \<noteq> UnboundLocalError s"
  using assms
  by (auto simp: validation_part_def valid_step_def next_py_def checkpoint_part_def
           split: if_splits option.splits sum.splits prod.splits)

lemma loop_body_no_unbound:
  assumes "ot_solver (trainer w) \<noteq> None"
  shows "loop_body E trl vl iter (w, tmat) \<noteq> Inl (UnboundLocalError s, w')"
proof
  assume a: "loop_body E trl vl iter (w, tmat) = Inl (UnboundLocalError s, w')"
  define w1 where "w1 = w\<lparr>trainer := (trainer w)\<lparr>rng := split E (rng (trainer w)) 3 2\<rparr>\<rparr>"
  have "next_py E trl w1 \<noteq> Inl (UnboundLocalError s)"
    by (simp add: next_py_def split: option.splits)
  with a obtain src tgt cond w2 where n: "next_py E trl w1 = Inr ((src, tgt, cond), w2)"
    by (auto simp: loop_body_def Let_def w1_def next_py_def split: option.splits)
  obtain batch tm w3 where m: "match_part E (split E (rng (trainer w)) 3 0)
      \<lparr>source = src, target = tgt, condition = cond\<rparr> tmat (emit NextTrain w2) = (batch, tm, w3)"
    by (metis prod_cases3)
  define w4 where "w4 = gradient_part E (split E (rng (trainer w)) 3 1) batch w3"
  have "ot_solver (trainer (emit NextTrain w2)) \<noteq> None"
    using assms next_py_Inr [OF n] by (simp add: emit_simps w1_def)
  then have tm: "tm \<noteq> None" using match_part_result [OF m] by simp
  from a n m have "rescaling_part E batch tm w4 = Inl (UnboundLocalError s, w')
      \<or> (\<exists>w5. rescaling_part E batch tm w4 = Inr w5
              \<and> validation_part E vl iter w5 = Inl (UnboundLocalError s, w'))"
    by (auto simp: loop_body_def Let_def w1_def w4_def split: sum.splits)
  then show False
    using tm rescaling_part_Inl validation_part_Inl by blast
qed

lemma run_iters_no_unbound:
  "ot_solver (trainer (fst wt)) \<noteq> None \<Longrightarrow>
     run_iters E trl vl is wt \<noteq> Inl (UnboundLocalError s, w')"
proof (induction "is" arbitrary: wt)
  case Nil
  then show ?case by simp
next
  case (Cons i rest)
  obtain w tmat where wt: "wt = (w, tmat)" by (cases wt)
  have solver: "ot_solver (trainer w) \<noteq> None" using Cons.prems by (simp add: wt)
  show ?case
  proof (cases "loop_body E trl vl i (w, tmat)")
    case (Inl x)
    then show ?thesis using loop_body_no_unbound [OF solver] by (auto simp: wt)
  next
    case (Inr wt1)
    obtain w1 tm1 where wt1: "wt1 = (w1, tm1)" by (cases wt1)
    have "same_config (trainer w) (trainer w1)"
      using loop_body_Inr Inr wt1 by blast
    then have "ot_solver (trainer (fst wt1)) \<noteq> None"
      using solver by (simp add: same_config_def wt1)
    then show ?thesis using Cons.IH [of wt1] Inr by (simp add: wt)
  qed
qed

lemma loop_body_unbound:
  assumes "ot_solver (trainer w) = None" and "learn_rescaling (trainer w)"
    and "items E trl (pos w trl) \<noteq> None"
  shows "\<exists>w'. loop_body E trl vl iter (w, None) = Inl (UnboundLocalError ''tmat'', w')
            \<and> trace w' = trace w @ [NextTrain, StepFn]"
proof -
  define w1 where "w1 = w\<lparr>trainer := (trainer w)\<lparr>rng := split E (rng (trainer w)) 3 2\<rparr>\<rparr>"
  have "items E trl (pos w1 trl) \<noteq> None" using assms(3) by (simp add: w1_def)
  then obtain b w2 where "next_py E trl w1 = Inr (b, w2)" using next_py_total by blast
  then obtain src tgt cond where n: "next_py E trl w1 = Inr ((src, tgt, cond), w2)"
    by (cases b) auto
  note n' = next_py_Inr [OF n]
  define batch where "batch = \<lparr>source = src, target = tgt, condition = cond\<rparr>"
  have m: "match_part E (split E (rng (trainer w)) 3 0) batch None (emit NextTrain w2)
      = (batch, None, emit NextTrain w2)"
    using assms(1) n' by (simp add: match_part_def emit_simps w1_def)
  define w4 where "w4 = gradient_part E (split E (rng (trainer w)) 3 1) batch (emit NextTrain w2)"
  note g' = gradient_part_result [of E "split E (rng (trainer w)) 3 1" batch "emit NextTrain w2"]
  have "same_config (trainer w) (trainer w4)"
    using g' n' by (simp add: w4_def emit_simps same_config_def w1_def)
  then have "learn_rescaling (trainer w4)"
    using assms(2) by (simp add: learn_rescaling_def same_config_def)
  then have r: "rescaling_part E batch None w4 = Inl (UnboundLocalError ''tmat'', w4)"
    by (simp add: rescaling_part_def)
  have t: "trace w4 = trace w @ [NextTrain, StepFn]"
    using g' n' by (simp add: w4_def emit_simps w1_def)
  have "loop_body E trl vl iter (w, None) = Inl (UnboundLocalError ''tmat'', w4)"
    using n m r by (simp add: loop_body_def Let_def w1_def w4_def batch_def)
  with t show ?thesis by blast
qed

text \<open>
  C10. With a rescaling network configured and \<open>ot_solver = None\<close>, a run of at least one
  iteration whose training iterator yields a batch fails in its first iteration: after
  the draw and the gradient step, the rescaling branch reads the unassigned \<open>tmat\<close> and
  raises \<open>UnboundLocalError\<close>. With an OT solver configured the run never raises
  \<open>UnboundLocalError\<close>: \<open>tmat\<close> is assigned in that branch before it is read.
\<close>

theorem rescaling_needs_ot_solver:
  "(ot_solver (trainer w) = None \<and> learn_rescaling (trainer w)
      \<and> 0 < iterations (trainer w) \<and> items E trl (pos w trl) \<noteq> None
    \<longrightarrow> (\<exists>w'. call E trl vl w = Inl (UnboundLocalError ''tmat'', w')
              \<and> trace w' = trace w @ [NextTrain, StepFn]))
   \<and> (ot_solver (trainer w) \<noteq> None
    \<longrightarrow> (\<forall>w' s. call E trl vl w \<noteq> Inl (UnboundLocalError s, w')))"
proof (intro conjI impI)
  assume a: "ot_solver (trainer w) = None \<and> learn_rescaling (trainer w)
      \<and> 0 < iterations (trainer w) \<and> items E trl (pos w trl) \<noteq> None"
  then have "0 < nat (iterations (trainer w))" by simp
  then have "[0..<nat (iterations (trainer w))] = 0 # [Suc 0..<nat (iterations (trainer w))]"
    by (simp add: upt_conv_Cons)
  then have u: "map int [0..<nat (iterations (trainer w))]
      = 0 # map int [Suc 0..<nat (iterations (trainer w))]"
    by simp
  obtain w' where "loop_body E trl vl 0 (w, None) = Inl (UnboundLocalError ''tmat'', w')"
      "trace w' = trace w @ [NextTrain, StepFn]"
    using loop_body_unbound a by blast
  then show "\<exists>w'. call E trl vl w = Inl (UnboundLocalError ''tmat'', w')
              \<and> trace w' = trace w @ [NextTrain, StepFn]"
    by (simp add: call_def u)
next
  assume "ot_solver (trainer w) \<noteq> None"
  then show "\<forall>w' s. call E trl vl w \<noteq> Inl (UnboundLocalError s, w')"
    using run_iters_no_unbound [of "(w, None)"] by (simp add: call_def)
qed

theorem rescaling_needs_ot_solver_witness:
  "ot_solver (trainer (test_world None (Some (Opaque ''eta'')))) = None
   \<and> learn_rescaling (trainer (test_world None (Some (Opaque ''eta''))))
   \<and> 0 < iterations (trainer (test_world None (Some (Opaque ''eta''))))
   \<and> items test_env 0 (pos (test_world None (Some (Opaque ''eta''))) 0) \<noteq> None
   \<and> (\<exists>w'. call test_env 0 1 (test_world None (Some (Opaque ''eta'')))
              = Inl (UnboundLocalError ''tmat'', w')
          \<and> trace w' = trace (test_world None (Some (Opaque ''eta''))) @ [NextTrain, StepFn])
   \<and> ot_solver (trainer (test_world (Some (Opaque ''sinkhorn'')) (Some (Opaque ''eta'')))) \<noteq> None
   \<and> (\<forall>w' s. call test_env 0 1 (test_world (Some (Opaque ''sinkhorn'')) (Some (Opaque ''eta'')))
              \<noteq> Inl (UnboundLocalError s, w'))"
proof -
  have h: "ot_solver (trainer (test_world None (Some (Opaque ''eta'')))) = None
     \<and> learn_rescaling (trainer (test_world None (Some (Opaque ''eta''))))
     \<and> 0 < iterations (trainer (test_world None (Some (Opaque ''eta''))))
     \<and> items test_env 0 (pos (test_world None (Some (Opaque ''eta''))) 0) \<noteq> None"
    by (simp add: test_world_def test_trainer_def test_env_def learn_rescaling_def)
  have h2: "ot_solver (trainer (test_world (Some (Opaque ''sinkhorn'')) (Some (Opaque ''eta''))))
      \<noteq> None"
    by (simp add: test_world_def test_trainer_def)
  show ?thesis
    using h h2
      rescaling_needs_ot_solver [of "test_world None (Some (Opaque ''eta''))" test_env 0 1]
      rescaling_needs_ot_solver
        [of "test_world (Some (Opaque ''sinkhorn'')) (Some (Opaque ''eta''))" test_env 0 1]
    by blast
qed



section \<open>Properties of the transport\<close>









section \<open>Properties of the cost history of the barycenter solver\<close>

lemma history_length: "k \<le> n \<Longrightarrow> length (history cost_of n k) = n"
  by (simp add: history_def)

lemma history_update:
  assumes "i < n"
  shows "(history cost_of n i)[i := cost_of i] = history cost_of n (Suc i)"
proof -
  have "replicate (n - i) sentinel = sentinel # replicate (n - Suc i) sentinel"
    using assms by (cases "n - i") (auto simp: Suc_diff_Suc)
  then show ?thesis
    by (simp add: history_def list_update_append)
qed

lemma history_nth: "j < k \<Longrightarrow> history cost_of n k ! j = cost_of j"
  by (simp add: history_def nth_append)

lemma recorded_history:
  assumes "\<forall>i. - 1 < cost_of i"
  shows "recorded (history cost_of n k) = map cost_of [0..<k]"
proof -
  have "filter (\<lambda>c. c > - 1) (map cost_of [0..<k]) = map cost_of [0..<k]"
    using assms by (simp add: filter_map o_def)
  then show ?thesis by (simp add: recorded_def history_def sentinel_def)
qed

lemma bary_iterate_history:
  "i \<le> length costs \<Longrightarrow> costs = history cost_of (length costs) i \<Longrightarrow>
   \<exists>k. i \<le> k \<and> k \<le> length costs
     \<and> bary_iterate close cost_of i costs = history cost_of (length costs) k
     \<and> (k = length costs
         \<or> (2 \<le> k \<and> close (cost_of (k - 2)) (cost_of (k - 1))))"
proof (induction close cost_of i costs rule: bary_iterate.induct)
  case (1 close cost_of i costs)
  define n where "n = length costs"
  show ?case
  proof (cases "n \<le> i")
    case True
    then have "i = n" using "1.prems"(1) by (simp add: n_def)
    moreover have "bary_iterate close cost_of i costs = costs"
      using True by (simp add: bary_iterate.simps [of close cost_of i costs] n_def)
    ultimately show ?thesis using "1.prems"(2) by (auto simp: n_def)
  next
    case False
    then have lt: "i < n" by simp
    define costs' where "costs' = costs[i := cost_of i]"
    have "costs[i := cost_of i] = (history cost_of n i)[i := cost_of i]"
      by (subst "1.prems"(2)) (simp add: n_def)
    then have c': "costs' = history cost_of n (Suc i)"
      using history_update [OF lt] by (simp add: costs'_def)
    have len': "length costs' = n" by (simp add: costs'_def n_def)
    show ?thesis
    proof (cases "0 < i \<and> close (costs' ! (i - 1)) (costs' ! i)")
      case True
      then have "bary_iterate close cost_of i costs = costs'"
        using lt by (simp add: bary_iterate.simps [of close cost_of i costs] n_def costs'_def)
      moreover have "close (cost_of (i - 1)) (cost_of i)"
        using True c' by (simp add: history_nth)
      ultimately show ?thesis
        using c' lt True by (intro exI [of _ "Suc i"]) (auto simp: n_def)
    next
      case stop: False
      have eq: "bary_iterate close cost_of i costs
          = bary_iterate close cost_of (Suc i) costs'"
        using lt stop
        by (auto simp: bary_iterate.simps [of close cost_of i costs] n_def costs'_def Let_def)
      have "\<exists>k. Suc i \<le> k \<and> k \<le> length costs'
         \<and> bary_iterate close cost_of (Suc i) costs' = history cost_of (length costs') k
         \<and> (k = length costs'
             \<or> (2 \<le> k \<and> close (cost_of (k - 2)) (cost_of (k - 1))))"
      proof (rule "1.IH")
        show "\<not> length costs \<le> i" using lt by (simp add: n_def)
        show "costs' = costs[i := cost_of i]" by (simp add: costs'_def)
        show "\<not> (0 < i \<and> close (costs' ! (i - 1)) (costs' ! i))" using stop .
        show "Suc i \<le> length costs'" using lt len' by simp
        show "costs' = history cost_of (length costs') (Suc i)" using c' len' by simp
      qed
      then obtain k where "Suc i \<le> k" "k \<le> length costs'"
        "bary_iterate close cost_of (Suc i) costs' = history cost_of (length costs') k"
        "k = length costs' \<or> (2 \<le> k \<and> close (cost_of (k - 2)) (cost_of (k - 1)))"
        by blast
      then have "i \<le> k \<and> k \<le> length costs
          \<and> bary_iterate close cost_of i costs = history cost_of (length costs) k
          \<and> (k = length costs
              \<or> (2 \<le> k \<and> close (cost_of (k - 2)) (cost_of (k - 1))))"
        using eq len' by (simp add: n_def)
      then show ?thesis by blast
    qed
  qed
qed

lemma last_two_agree_map:
  assumes "2 \<le> k" and "close (cost_of (k - 2)) (cost_of (k - 1))"
  shows "last_two_agree close (map cost_of [0..<k])"
  using assms by (simp add: last_two_agree_def)

text \<open>
  C9 (amended). The history has one slot per iteration of the budget, all initialised to
  the sentinel \<open>-1\<close>; on return the first \<open>k\<close> slots hold the costs computed and the others
  still hold the sentinel, and, costs being above \<open>-1\<close>, after discarding the sentinel
  entries either the last two recorded costs agree within the threshold or the iteration
  budget is exhausted (\<open>k = max_iterations\<close>).
\<close>

theorem barycenter_costs_history:
  assumes "\<forall>i. - 1 < cost_of i"
  shows "init_costs max_iterations = replicate max_iterations (- 1)
    \<and> length (barycenter_costs close cost_of max_iterations) = max_iterations
    \<and> (\<exists>k \<le> max_iterations.
          barycenter_costs close cost_of max_iterations
            = map cost_of [0..<k] @ replicate (max_iterations - k) (- 1)
          \<and> recorded (barycenter_costs close cost_of max_iterations) = map cost_of [0..<k]
          \<and> (k = max_iterations
              \<or> last_two_agree close
                   (recorded (barycenter_costs close cost_of max_iterations))))"
proof -
  have i: "init_costs max_iterations = history cost_of (length (init_costs max_iterations)) 0"
    by (simp add: init_costs_def history_def)
  have l: "length (init_costs max_iterations) = max_iterations"
    by (simp add: init_costs_def)
  obtain k where k: "k \<le> max_iterations"
    and h: "barycenter_costs close cost_of max_iterations = history cost_of max_iterations k"
    and s: "k = max_iterations \<or> (2 \<le> k \<and> close (cost_of (k - 2)) (cost_of (k - 1)))"
    using bary_iterate_history [of 0 "init_costs max_iterations" cost_of close] i l
    unfolding barycenter_costs_def by auto
  have r: "recorded (barycenter_costs close cost_of max_iterations) = map cost_of [0..<k]"
    using recorded_history [OF assms] h by simp
  have "k = max_iterations
      \<or> last_two_agree close (recorded (barycenter_costs close cost_of max_iterations))"
    using s r last_two_agree_map by auto
  moreover have "length (barycenter_costs close cost_of max_iterations) = max_iterations"
    using h k by (simp add: history_length)
  moreover have "barycenter_costs close cost_of max_iterations
            = map cost_of [0..<k] @ replicate (max_iterations - k) (- 1)"
    using h by (simp add: history_def sentinel_def)
  ultimately show ?thesis
    using k r by (auto simp: init_costs_def sentinel_def)
qed

text \<open>
  C9 as stated (fails on the model): on return the last two recorded costs agree within
  the threshold. With a budget of three iterations, threshold \<open>1/1000\<close> and the costs
  \<open>10, 9, 8\<close> the solver stops because the budget is exhausted, and the last two costs differ
  by one: they agree neither in the sense of the spec nor in that of the test.
\<close>

theorem barycenter_budget_counterexample:
  "barycenter_costs (differ_less (1 / 1000)) falling 3 = [10, 9, 8]
   \<and> recorded [10, 9, 8] = [10, 9, 8]
   \<and> \<not> last_two_agree (differ_less (1 / 1000)) [10, 9, 8]
   \<and> \<not> last_two_agree (isclose (1 / 1000)) [10, 9, 8]"
  by (simp add: barycenter_costs_def init_costs_def sentinel_def falling_def differ_less_def
        bary_iterate.simps [of _ _ 0] bary_iterate.simps [of _ _ "Suc 0"]
        bary_iterate.simps [of _ _ "Suc (Suc 0)"] bary_iterate.simps [of _ _ "Suc (Suc (Suc 0))"]
        numeral_3_eq_3 recorded_def last_two_agree_def isclose_def)


theorem barycenter_costs_history_witness:
  "(\<forall>i. - 1 < settling i)
   \<and> barycenter_costs (differ_less (1 / 1000)) settling 6 = [0, 1, 5, 5, - 1, - 1]
   \<and> length (barycenter_costs (differ_less (1 / 1000)) settling 6) = 6
   \<and> (\<exists>k \<le> 6. recorded (barycenter_costs (differ_less (1 / 1000)) settling 6) = map settling [0..<k]
          \<and> (k = 6 \<or> last_two_agree (differ_less (1 / 1000))
                            (recorded (barycenter_costs (differ_less (1 / 1000)) settling 6))))
   \<and> last_two_agree (differ_less (1 / 1000)) (recorded [0, 1, 5, 5, - 1, - 1])"
proof -
  have h: "\<forall>i. - 1 < settling i"
    by (simp add: settling_def)
  have run: "barycenter_costs (differ_less (1 / 1000)) settling 6 = [0, 1, 5, 5, - 1, - 1]"
    by (simp add: barycenter_costs_def init_costs_def sentinel_def settling_def differ_less_def
          bary_iterate.simps [of _ _ 0] bary_iterate.simps [of _ _ "Suc 0"]
          bary_iterate.simps [of _ _ "Suc (Suc 0)"]
          bary_iterate.simps [of _ _ "Suc (Suc (Suc 0))"] eval_nat_numeral)
  have agree: "last_two_agree (differ_less (1 / 1000)) (recorded [0, 1, 5, 5, - 1, - 1])"
    by (simp add: last_two_agree_def recorded_def differ_less_def)
  from barycenter_costs_history [OF h, of 6 "differ_less (1 / 1000)"]
  have "length (barycenter_costs (differ_less (1 / 1000)) settling 6) = 6
    \<and> (\<exists>k \<le> 6. recorded (barycenter_costs (differ_less (1 / 1000)) settling 6) = map settling [0..<k]
          \<and> (k = 6 \<or> last_two_agree (differ_less (1 / 1000))
                            (recorded (barycenter_costs (differ_less (1 / 1000)) settling 6))))"
    by blast
  with h run agree show ?thesis by blast
qed

end
